theory Spec2Isabelle
  imports Main
begin

section \<open>The PPO catalog of rllib/algorithms/ppo/ppo_catalog.py\<close>

text \<open>
  The class \<^verbatim>\<open>PPOCatalog\<close> checks an observation space, an action space and a model
  config dictionary, and assembles three configuration objects: an actor-critic encoder
  config, a policy head config and a value head config. The constructor writes to
  configuration objects that are shared by reference (the actor-critic encoder config
  holds the very encoder config that the constructor patches afterwards), so the
  configuration objects live in an explicit store and the catalog holds their addresses.
  Exceptions are values of type \<open>error\<close>; a failing call returns \<open>Inl\<close>.
\<close>

subsection \<open>Python values and exceptions\<close>

text \<open>
  The values found in a model config dictionary and in the fields of a configuration
  object. Floating point numbers are left out: no line of the class computes with them.
\<close>

datatype pyval =
    PNone
  | PBool bool
  | PInt int
  | PStr string
  | PList "pyval list"
  | PTuple "pyval list"

text \<open>Python's truth value of an object, as \<^verbatim>\<open>not x\<close> and \<^verbatim>\<open>assert\<close> test it.\<close>

fun truthy :: "pyval \<Rightarrow> bool" where
  "truthy PNone = False"
| "truthy (PBool b) = b"
| "truthy (PInt i) = (i \<noteq> 0)"
| "truthy (PStr s) = (s \<noteq> [])"
| "truthy (PList xs) = (xs \<noteq> [])"
| "truthy (PTuple xs) = (xs \<noteq> [])"

text \<open>
  The exceptions of the class and of the Python operations it uses. An assertion error
  carries the message object of the \<^verbatim>\<open>assert\<close> statement, a key error the missing key,
  an attribute error the attribute's name. Assertions are taken as enabled (the
  interpreter does not run with \<^verbatim>\<open>-O\<close>).
\<close>

datatype error =
    AssertionError pyval
  | KeyError string
  | IndexError
  | TypeError
  | AttributeError string
  | NotImplementedError string
  | OtherError string

definition bind :: "error + 'a \<Rightarrow> ('a \<Rightarrow> error + 'b) \<Rightarrow> error + 'b" where
  "bind r f = (case r of Inl e \<Rightarrow> Inl e | Inr x \<Rightarrow> f x)"

text \<open>Python's \<^verbatim>\<open>int(x)\<close> applied to an integer.\<close>

definition py_int :: "int \<Rightarrow> int" where
  "py_int i = i"

subsection \<open>Spaces and the model config dictionary\<close>

text \<open>
  A gymnasium space, as far as the class looks at it: a \<^verbatim>\<open>Box\<close> with its shape, a
  \<^verbatim>\<open>Discrete\<close> with its number of categories \<^verbatim>\<open>n\<close>, or a space of any other class,
  given by its \<^verbatim>\<open>shape\<close> attribute (\<^verbatim>\<open>None\<close> for composite spaces).
\<close>

datatype space =
    Box "int list"
  | Discrete int
  | OtherSpace "int list option"

text \<open>The attribute \<^verbatim>\<open>space.shape\<close>; a \<^verbatim>\<open>Discrete\<close> space has the empty shape.\<close>

fun space_shape :: "space \<Rightarrow> int list option" where
  "space_shape (Box shp) = Some shp"
| "space_shape (Discrete n) = Some []"
| "space_shape (OtherSpace shp) = shp"

text \<open>\<^verbatim>\<open>space.shape[0]\<close>: subscripting \<^verbatim>\<open>None\<close> is a type error, an empty tuple an index error.\<close>

definition shape_0 :: "space \<Rightarrow> error + int" where
  "shape_0 sp =
     (case space_shape sp of
        None \<Rightarrow> Inl TypeError
      | Some [] \<Rightarrow> Inl IndexError
      | Some (k # _) \<Rightarrow> Inr k)"

type_synonym dict = "string \<rightharpoonup> pyval"

text \<open>\<^verbatim>\<open>d.get(k)\<close>: the value, or \<^verbatim>\<open>None\<close> for a missing key.\<close>

definition dict_get :: "dict \<Rightarrow> string \<Rightarrow> pyval" where
  "dict_get d k = (case d k of None \<Rightarrow> PNone | Some v \<Rightarrow> v)"

text \<open>\<^verbatim>\<open>d[k]\<close>: the value, or a key error for a missing key.\<close>

definition dict_getitem :: "dict \<Rightarrow> string \<Rightarrow> error + pyval" where
  "dict_getitem d k = (case d k of None \<Rightarrow> Inl (KeyError k) | Some v \<Rightarrow> Inr v)"

subsection \<open>Configuration objects and the store\<close>

type_synonym addr = nat

text \<open>
  Modelled from the spec: the configuration classes of \<^verbatim>\<open>ray.rllib.core.models.configs\<close>,
  which the class imports and whose declarations are not part of the sources at hand.
  The encoder config has an \<^verbatim>\<open>input_dim\<close> and an \<^verbatim>\<open>output_dim\<close> (the only fields
  the class reads or writes); a head config has \<^verbatim>\<open>input_dim\<close>,
  \<^verbatim>\<open>hidden_layer_dims\<close>, \<^verbatim>\<open>hidden_layer_activation\<close>, \<^verbatim>\<open>output_activation\<close> and
  \<^verbatim>\<open>output_dim\<close>; the actor-critic encoder config wraps the base encoder config, held
  by reference, plus a \<^verbatim>\<open>shared\<close> flag. Constructing one stores the keyword arguments
  in the fields of a new object.
\<close>

record model_config =
  input_dim :: pyval
  output_dim :: pyval

record mlp_head_config = model_config +
  hidden_layer_dims :: pyval
  hidden_layer_activation :: pyval
  output_activation :: pyval

record actor_critic_encoder_config =
  base_encoder_config :: addr
  shared :: pyval

datatype obj =
    EncoderConfig model_config
  | ActorCriticEncoderConfig actor_critic_encoder_config
  | MLPHeadConfig mlp_head_config

text \<open>
  The store is the list of the configuration objects allocated so far; an address is an
  index. A constructor call appends the new object, so its address is fresh.
\<close>

type_synonym store = "obj list"

definition lookup :: "store \<Rightarrow> addr \<Rightarrow> obj option" where
  "lookup s a = (if a < length s then Some (s ! a) else None)"

definition alloc :: "obj \<Rightarrow> store \<Rightarrow> addr \<times> store" where
  "alloc ob s = (length s, s @ [ob])"

text \<open>
  Reading \<^verbatim>\<open>c.output_dim\<close>, \<^verbatim>\<open>c.input_dim\<close> and writing \<^verbatim>\<open>c.input_dim = v\<close>, \<^verbatim>\<open>c.output_dim = v\<close>
  where \<^verbatim>\<open>c\<close> is the object at an address. An object without the field gives an
  attribute error (in the constructor below every write follows a read of the same
  object or its allocation, so no write meets such an object).
\<close>

definition get_output_dim :: "store \<Rightarrow> addr \<Rightarrow> error + pyval" where
  "get_output_dim s a =
     (case lookup s a of
        Some (EncoderConfig c) \<Rightarrow> Inr (output_dim c)
      | Some (MLPHeadConfig c) \<Rightarrow> Inr (output_dim c)
      | _ \<Rightarrow> Inl (AttributeError ''output_dim''))"

definition get_input_dim :: "store \<Rightarrow> addr \<Rightarrow> error + pyval" where
  "get_input_dim s a =
     (case lookup s a of
        Some (EncoderConfig c) \<Rightarrow> Inr (input_dim c)
      | Some (MLPHeadConfig c) \<Rightarrow> Inr (input_dim c)
      | _ \<Rightarrow> Inl (AttributeError ''input_dim''))"

definition set_input_dim :: "store \<Rightarrow> addr \<Rightarrow> pyval \<Rightarrow> error + store" where
  "set_input_dim s a v =
     (case lookup s a of
        Some (EncoderConfig c) \<Rightarrow> Inr (s[a := EncoderConfig (c\<lparr>input_dim := v\<rparr>)])
      | Some (MLPHeadConfig c) \<Rightarrow> Inr (s[a := MLPHeadConfig (c\<lparr>input_dim := v\<rparr>)])
      | _ \<Rightarrow> Inl (AttributeError ''input_dim''))"

definition set_output_dim :: "store \<Rightarrow> addr \<Rightarrow> pyval \<Rightarrow> error + store" where
  "set_output_dim s a v =
     (case lookup s a of
        Some (EncoderConfig c) \<Rightarrow> Inr (s[a := EncoderConfig (c\<lparr>output_dim := v\<rparr>)])
      | Some (MLPHeadConfig c) \<Rightarrow> Inr (s[a := MLPHeadConfig (c\<lparr>output_dim := v\<rparr>)])
      | _ \<Rightarrow> Inl (AttributeError ''output_dim''))"

subsection \<open>The catalog\<close>

text \<open>
  The attributes of a catalog after the superclass constructor \<^verbatim>\<open>Catalog.__init__\<close>
  has run, as far as \<^verbatim>\<open>PPOCatalog\<close> uses them: the spaces, the catalog's own model
  config dictionary and the address of the base encoder config.
\<close>

record catalog =
  observation_space :: space
  action_space :: space
  model_config_dict :: dict
  encoder_config :: addr

record PPOCatalog = catalog +
  actor_critic_encoder_config :: addr
  pi_head_config :: addr
  vf_head_config :: addr

text \<open>
  \<^verbatim>\<open>Catalog.__init__\<close> (\<^verbatim>\<open>ray.rllib.core.models.catalog\<close>) is not part of the sources
  at hand; the constructor below takes it as a parameter of this type. It may raise, and
  it may allocate objects.
\<close>

type_synonym super_init = "space \<Rightarrow> space \<Rightarrow> dict \<Rightarrow> store \<Rightarrow> error + catalog \<times> store"

text \<open>
  A superclass constructor to run the constructor on concrete inputs: it keeps the
  spaces and the dictionary as they are passed and allocates the given encoder config.
\<close>

definition Catalog_init_with :: "model_config \<Rightarrow> super_init" where
  "Catalog_init_with enc observation_space' action_space' model_config_dict' s =
     (let (a, s') = alloc (EncoderConfig enc) s
      in Inr (\<lparr>observation_space = observation_space', action_space = action_space',
               model_config_dict = model_config_dict', encoder_config = a\<rparr>, s'))"

subsection \<open>The constructor\<close>

text \<open>
  Lines 48 to 61: the four assertions, in the order of the source. The message of the
  last one is a one-element tuple, as the source writes it.
\<close>

definition init_asserts :: "space \<Rightarrow> space \<Rightarrow> dict \<Rightarrow> error + unit" where
  "init_asserts observation_space' action_space' model_config_dict' =
     (let free_log_std = dict_get model_config_dict' ''free_log_std'' in
      if truthy free_log_std
      then Inl (AssertionError (PStr ''free_log_std not supported yet.''))
      else
        (case observation_space' of
           Box obs_shape \<Rightarrow>
             if length obs_shape \<notin> {1}
             then Inl (AssertionError
                    (PStr ''This simple PPO Module only supports 1D observation spaces.''))
             else
               (case action_space' of
                  Discrete _ \<Rightarrow> Inr ()
                | Box _ \<Rightarrow> Inr ()
                | _ \<Rightarrow>
                    Inl (AssertionError (PTuple
                      [PStr ''This simple PPO Module only supports Discrete and Box action spaces.''])))
         | _ \<Rightarrow>
             Inl (AssertionError
               (PStr ''This simple PPO Module only supports Box observation space.''))))"

text \<open>Lines 69 to 72: the policy head's output dimension, first computation.\<close>

definition pi_output_dim_first :: "space \<Rightarrow> error + int" where
  "pi_output_dim_first action_space' =
     (case action_space' of
        Discrete n \<Rightarrow> Inr n
      | _ \<Rightarrow> bind (shape_0 action_space') (\<lambda>k. Inr (k * 2)))"

text \<open>Lines 96 to 99: the same dimension, computed again and passed through \<^verbatim>\<open>int\<close>.\<close>

definition pi_output_dim_second :: "space \<Rightarrow> error + int" where
  "pi_output_dim_second action_space' =
     (case action_space' of
        Discrete n \<Rightarrow> Inr (py_int n)
      | _ \<Rightarrow> bind (shape_0 action_space') (\<lambda>k. Inr (py_int (k * 2))))"

text \<open>
  Lines 63 to 91: the actor-critic encoder config around the catalog's encoder config,
  then the two head configs. Each \<^verbatim>\<open>self.encoder_config.output_dim\<close> is a read of
  the store.
\<close>

definition init_configs :: "catalog \<Rightarrow> space \<Rightarrow> store \<Rightarrow> error + PPOCatalog \<times> store" where
  "init_configs self action_space' s1 =
     bind (dict_getitem (model_config_dict self) ''vf_share_layers'') (\<lambda>vf_share_layers.
     let (ac, s2) = alloc (ActorCriticEncoderConfig
           \<lparr>base_encoder_config = encoder_config self, shared = vf_share_layers\<rparr>) s1 in
     bind (pi_output_dim_first action_space') (\<lambda>pi_output_dim.
     bind (dict_getitem (model_config_dict self) ''post_fcnet_hiddens'') (\<lambda>post_fcnet_hiddens.
     bind (dict_getitem (model_config_dict self) ''post_fcnet_activation'') (\<lambda>post_fcnet_activation.
     bind (get_output_dim s2 (encoder_config self)) (\<lambda>pi_input_dim.
     let (pi, s3) = alloc (MLPHeadConfig
           \<lparr>input_dim = pi_input_dim, output_dim = PInt pi_output_dim,
            hidden_layer_dims = post_fcnet_hiddens,
            hidden_layer_activation = post_fcnet_activation,
            output_activation = PStr ''linear''\<rparr>) s2 in
     bind (get_output_dim s3 (encoder_config self)) (\<lambda>vf_input_dim.
     let (vf, s4) = alloc (MLPHeadConfig
           \<lparr>input_dim = vf_input_dim, output_dim = PInt 1,
            hidden_layer_dims = post_fcnet_hiddens,
            hidden_layer_activation = post_fcnet_activation,
            output_activation = PStr ''linear''\<rparr>) s3 in
     Inr (\<lparr>observation_space = observation_space self, action_space = action_space self,
           model_config_dict = model_config_dict self, encoder_config = encoder_config self,
           actor_critic_encoder_config = ac, pi_head_config = pi, vf_head_config = vf\<rparr>,
          s4)))))))"

text \<open>Lines 93 to 100: the dimensions written once more into the finished configs.\<close>

definition init_set_dims :: "PPOCatalog \<Rightarrow> space \<Rightarrow> space \<Rightarrow> store \<Rightarrow> error + PPOCatalog \<times> store" where
  "init_set_dims self observation_space' action_space' s4 =
     bind (shape_0 observation_space') (\<lambda>d.
     bind (set_input_dim s4 (encoder_config self) (PInt d)) (\<lambda>s5.
     bind (get_output_dim s5 (encoder_config self)) (\<lambda>encoder_output_dim.
     bind (set_input_dim s5 (pi_head_config self) encoder_output_dim) (\<lambda>s6.
     bind (pi_output_dim_second action_space') (\<lambda>pi_output_dim.
     bind (set_output_dim s6 (pi_head_config self) (PInt pi_output_dim)) (\<lambda>s7.
     bind (set_output_dim s7 (vf_head_config self) (PInt 1)) (\<lambda>s8.
     Inr (self, s8))))))))"

text \<open>
  \<^verbatim>\<open>PPOCatalog.__init__\<close>: the superclass constructor, the assertions on the arguments,
  the configs, the dimensions. The result is the catalog and the store, or the first
  exception raised.
\<close>

definition PPOCatalog_init ::
  "super_init \<Rightarrow> space \<Rightarrow> space \<Rightarrow> dict \<Rightarrow> store \<Rightarrow> error + PPOCatalog \<times> store" where
  "PPOCatalog_init Catalog_init observation_space' action_space' model_config_dict' s0 =
     bind (Catalog_init observation_space' action_space' model_config_dict' s0) (\<lambda>(self, s1).
     bind (init_asserts observation_space' action_space' model_config_dict') (\<lambda>_.
     bind (init_configs self action_space' s1) (\<lambda>(self, s4).
     init_set_dims self observation_space' action_space' s4)))"

subsection \<open>The builders\<close>

text \<open>
  Modelled from the spec: the method \<^verbatim>\<open>build(framework)\<close> of the configuration classes
  (\<^verbatim>\<open>ray.rllib.core.models.configs\<close>, not part of the sources at hand). The spec: it
  returns an opaque module handle; each call is stateless given the assembled configs,
  with no caching and no memoization, a pure function of the stored configuration and
  the framework. So a builder \<open>bld\<close> reads the store at the config's address and returns
  a handle or raises, and the store stays as it is. What it returns is a parameter.
\<close>

type_synonym 'm builder = "store \<Rightarrow> addr \<Rightarrow> string \<Rightarrow> error + 'm"

definition config_build :: "'m builder \<Rightarrow> addr \<Rightarrow> string \<Rightarrow> store \<Rightarrow> (error + 'm) \<times> store" where
  "config_build bld a framework s = (bld s a framework, s)"

text \<open>
  The methods of the catalog take the catalog and the store and return the result of the
  call (a module handle or the exception raised) with the catalog and the store after it.
\<close>

definition build_actor_critic_encoder ::
  "'m builder \<Rightarrow> string \<Rightarrow> PPOCatalog \<times> store \<Rightarrow> (error + 'm) \<times> PPOCatalog \<times> store" where
  "build_actor_critic_encoder bld framework st =
     (case st of (self, s) \<Rightarrow>
        (case config_build bld (actor_critic_encoder_config self) framework s of
           (r, s') \<Rightarrow> (r, self, s')))"

definition build_encoder ::
  "string \<Rightarrow> PPOCatalog \<times> store \<Rightarrow> (error + 'm) \<times> PPOCatalog \<times> store" where
  "build_encoder framework st =
     (Inl (NotImplementedError ''Use PPOCatalog.build_actor_critic_encoder() instead.''), st)"

definition build_pi_head ::
  "'m builder \<Rightarrow> string \<Rightarrow> PPOCatalog \<times> store \<Rightarrow> (error + 'm) \<times> PPOCatalog \<times> store" where
  "build_pi_head bld framework st =
     (case st of (self, s) \<Rightarrow>
        (case config_build bld (pi_head_config self) framework s of
           (r, s') \<Rightarrow> (r, self, s')))"

definition build_vf_head ::
  "'m builder \<Rightarrow> string \<Rightarrow> PPOCatalog \<times> store \<Rightarrow> (error + 'm) \<times> PPOCatalog \<times> store" where
  "build_vf_head bld framework st =
     (case st of (self, s) \<Rightarrow>
        (case config_build bld (vf_head_config self) framework s of
           (r, s') \<Rightarrow> (r, self, s')))"

subsection \<open>The single-pass construction of the design notes\<close>

text \<open>
  The spec's design notes propose, in place of the double write, "a single explicit
  construction function that takes the resolved dimensions as parameters from the
  start". The resolved dimensions are those of the spec's dimension resolver: the
  encoder's input dimension is \<^verbatim>\<open>observation_space.shape[0]\<close>, the policy head's
  output dimension is \<^verbatim>\<open>action_space.n\<close> for a categorical space and
  \<^verbatim>\<open>2 * action_space.shape[0]\<close> otherwise, the value head's output dimension is 1.
\<close>

definition resolve_dims :: "space \<Rightarrow> space \<Rightarrow> error + int \<times> int \<times> int" where
  "resolve_dims observation_space' action_space' =
     bind (shape_0 observation_space') (\<lambda>encoder_input_dim.
     bind (case action_space' of
             Discrete n \<Rightarrow> Inr n
           | _ \<Rightarrow> bind (shape_0 action_space') (\<lambda>k. Inr (2 * k))) (\<lambda>pi_output_dim.
     Inr (encoder_input_dim, pi_output_dim, 1)))"

text \<open>
  The construction function: every field is written once, with its final value. The
  encoder config is the superclass's object, so its input dimension is set in place.
\<close>

definition construct_single_pass ::
  "catalog \<Rightarrow> int \<Rightarrow> int \<Rightarrow> int \<Rightarrow> store \<Rightarrow> error + PPOCatalog \<times> store" where
  "construct_single_pass self encoder_input_dim pi_output_dim vf_output_dim s1 =
     bind (dict_getitem (model_config_dict self) ''vf_share_layers'') (\<lambda>vf_share_layers.
     bind (dict_getitem (model_config_dict self) ''post_fcnet_hiddens'') (\<lambda>post_fcnet_hiddens.
     bind (dict_getitem (model_config_dict self) ''post_fcnet_activation'') (\<lambda>post_fcnet_activation.
     bind (set_input_dim s1 (encoder_config self) (PInt encoder_input_dim)) (\<lambda>s2.
     bind (get_output_dim s2 (encoder_config self)) (\<lambda>encoder_output_dim.
     let (ac, s3) = alloc (ActorCriticEncoderConfig
           \<lparr>base_encoder_config = encoder_config self, shared = vf_share_layers\<rparr>) s2 in
     let (pi, s4) = alloc (MLPHeadConfig
           \<lparr>input_dim = encoder_output_dim, output_dim = PInt pi_output_dim,
            hidden_layer_dims = post_fcnet_hiddens,
            hidden_layer_activation = post_fcnet_activation,
            output_activation = PStr ''linear''\<rparr>) s3 in
     let (vf, s5) = alloc (MLPHeadConfig
           \<lparr>input_dim = encoder_output_dim, output_dim = PInt vf_output_dim,
            hidden_layer_dims = post_fcnet_hiddens,
            hidden_layer_activation = post_fcnet_activation,
            output_activation = PStr ''linear''\<rparr>) s4 in
     Inr (\<lparr>observation_space = observation_space self, action_space = action_space self,
           model_config_dict = model_config_dict self, encoder_config = encoder_config self,
           actor_critic_encoder_config = ac, pi_head_config = pi, vf_head_config = vf\<rparr>,
          s5))))))"

definition PPOCatalog_init_single_pass ::
  "super_init \<Rightarrow> space \<Rightarrow> space \<Rightarrow> dict \<Rightarrow> store \<Rightarrow> error + PPOCatalog \<times> store" where
  "PPOCatalog_init_single_pass Catalog_init observation_space' action_space' model_config_dict' s0 =
     bind (Catalog_init observation_space' action_space' model_config_dict' s0) (\<lambda>(self, s1).
     bind (init_asserts observation_space' action_space' model_config_dict') (\<lambda>_.
     bind (resolve_dims observation_space' action_space') (\<lambda>(encoder_input_dim, pi_output_dim, vf_output_dim).
     construct_single_pass self encoder_input_dim pi_output_dim vf_output_dim s1)))"

subsection \<open>The assertion messages by kind, and the inputs of the spec's scenarios\<close>

text \<open>
  All three construction errors of the class are assertion errors, told apart by their
  message: the message of line 49 (\<^verbatim>\<open>free_log_std\<close> requested), and the messages of
  lines 51 to 61 (a space that is not supported).
\<close>

definition unsupported_feature_error :: "error \<Rightarrow> bool" where
  "unsupported_feature_error e =
     (e = AssertionError (PStr ''free_log_std not supported yet.''))"

definition unsupported_space_error :: "error \<Rightarrow> bool" where
  "unsupported_space_error e =
     (e = AssertionError (PStr ''This simple PPO Module only supports Box observation space.'') \<or>
      e = AssertionError (PStr ''This simple PPO Module only supports 1D observation spaces.'') \<or>
      e = AssertionError (PTuple
            [PStr ''This simple PPO Module only supports Discrete and Box action spaces.'']))"

text \<open>
  The model config dictionary of the two scenarios of the spec,
  \<^verbatim>\<open>{vf_share_layers: b, post_fcnet_hiddens: [32], post_fcnet_activation: "relu"}\<close>,
  and an encoder config for the superclass constructor to provide.
\<close>

definition scenario_config :: "bool \<Rightarrow> dict" where
  "scenario_config b =
     [''vf_share_layers'' \<mapsto> PBool b, ''post_fcnet_hiddens'' \<mapsto> PList [PInt 32],
      ''post_fcnet_activation'' \<mapsto> PStr ''relu'']"

definition scenario_encoder :: model_config where
  "scenario_encoder = \<lparr>input_dim = PNone, output_dim = PInt 256\<rparr>"

section \<open>Properties\<close>

subsection \<open>Results, the store and the phases of the constructor\<close>

lemma bind_Inr: "(bind r f = Inr y) = (\<exists>x. r = Inr x \<and> f x = Inr y)"
  by (cases r) (simp_all add: bind_def)

lemma bind_Inr_simp [simp]: "bind (Inr x) f = f x"
  by (simp add: bind_def)

lemma bind_Inl_simp [simp]: "bind (Inl e) f = Inl e"
  by (simp add: bind_def)

lemma lookup_append: "a < length s \<Longrightarrow> lookup (s @ xs) a = lookup s a"
  by (simp add: lookup_def nth_append)

lemma lookup_new: "lookup (s @ ob # xs) (length s) = Some ob"
  by (simp add: lookup_def)

lemma init_asserts_Inr:
  "(init_asserts obs act mcd = Inr u) =
     (\<not> truthy (dict_get mcd ''free_log_std'') \<and> (\<exists>d. obs = Box [d]) \<and>
      ((\<exists>n. act = Discrete n) \<or> (\<exists>shp. act = Box shp)))"
  by (auto simp: init_asserts_def Let_def length_Suc_conv split: space.splits)

lemma get_output_dim_Inr:
  "(get_output_dim s a = Inr v) =
     (a < length s \<and> ((\<exists>c. s ! a = EncoderConfig c \<and> output_dim c = v) \<or>
                       (\<exists>c. s ! a = MLPHeadConfig c \<and> output_dim c = v)))"
  by (auto simp: get_output_dim_def lookup_def split: obj.splits)

lemma get_output_dim_append_ac:
  "get_output_dim (s @ [ActorCriticEncoderConfig x]) a = get_output_dim s a"
  by (auto simp: get_output_dim_def lookup_def nth_append split: obj.splits)

lemma get_output_dim_append:
  "a < length s \<Longrightarrow> get_output_dim (s @ xs) a = get_output_dim s a"
  by (simp add: get_output_dim_def lookup_append)

lemma get_output_dim_less: "get_output_dim s a = Inr v \<Longrightarrow> a < length s"
  by (simp add: get_output_dim_Inr)

lemma set_input_dim_Inr:
  "(set_input_dim s a v = Inr s') =
     (a < length s \<and>
      ((\<exists>c. s ! a = EncoderConfig c \<and> s' = s[a := EncoderConfig (c\<lparr>input_dim := v\<rparr>)]) \<or>
       (\<exists>c. s ! a = MLPHeadConfig c \<and> s' = s[a := MLPHeadConfig (c\<lparr>input_dim := v\<rparr>)])))"
  by (auto simp: set_input_dim_def lookup_def split: obj.splits)

lemma set_output_dim_Inr:
  "(set_output_dim s a v = Inr s') =
     (a < length s \<and>
      ((\<exists>c. s ! a = EncoderConfig c \<and> s' = s[a := EncoderConfig (c\<lparr>output_dim := v\<rparr>)]) \<or>
       (\<exists>c. s ! a = MLPHeadConfig c \<and> s' = s[a := MLPHeadConfig (c\<lparr>output_dim := v\<rparr>)])))"
  by (auto simp: set_output_dim_def lookup_def split: obj.splits)

lemma set_input_dim_total:
  "get_output_dim s a = Inr od \<Longrightarrow>
     \<exists>s'. set_input_dim s a v = Inr s' \<and> length s' = length s \<and> get_output_dim s' a = Inr od"
  by (auto simp: get_output_dim_Inr set_input_dim_Inr)

lemma set_input_dim_length: "set_input_dim s a v = Inr s' \<Longrightarrow> length s' = length s"
  by (auto simp: set_input_dim_Inr)

lemma set_input_dim_get_output_dim:
  "set_input_dim s a v = Inr s' \<Longrightarrow> get_output_dim s' b = get_output_dim s b"
  by (cases "a = b") (auto simp: set_input_dim_Inr get_output_dim_def lookup_def)

lemma set_input_dim_append:
  "set_input_dim s a v = Inr s' \<Longrightarrow> set_input_dim (s @ xs) a v = Inr (s' @ xs)"
  by (auto simp: set_input_dim_Inr nth_append list_update_append1)

lemma init_configs_Inr:
  "(init_configs self act s1 = Inr r) =
     (\<exists>v p h a od.
        model_config_dict self ''vf_share_layers'' = Some v \<and>
        pi_output_dim_first act = Inr p \<and>
        model_config_dict self ''post_fcnet_hiddens'' = Some h \<and>
        model_config_dict self ''post_fcnet_activation'' = Some a \<and>
        get_output_dim s1 (encoder_config self) = Inr od \<and>
        r = (\<lparr>observation_space = observation_space self, action_space = action_space self,
              model_config_dict = model_config_dict self, encoder_config = encoder_config self,
              actor_critic_encoder_config = length s1, pi_head_config = Suc (length s1),
              vf_head_config = Suc (Suc (length s1))\<rparr>,
             s1 @ [ActorCriticEncoderConfig
                    \<lparr>base_encoder_config = encoder_config self, shared = v\<rparr>,
                   MLPHeadConfig \<lparr>input_dim = od, output_dim = PInt p, hidden_layer_dims = h,
                     hidden_layer_activation = a, output_activation = PStr ''linear''\<rparr>,
                   MLPHeadConfig \<lparr>input_dim = od, output_dim = PInt 1, hidden_layer_dims = h,
                     hidden_layer_activation = a, output_activation = PStr ''linear''\<rparr>]))"
  (is "?L = ?R")
proof
  assume ?L
  then obtain v p h a od where
    v: "dict_getitem (model_config_dict self) ''vf_share_layers'' = Inr v" and
    p: "pi_output_dim_first act = Inr p" and
    h: "dict_getitem (model_config_dict self) ''post_fcnet_hiddens'' = Inr h" and
    a: "dict_getitem (model_config_dict self) ''post_fcnet_activation'' = Inr a" and
    od: "get_output_dim s1 (encoder_config self) = Inr od"
    by (auto simp: init_configs_def alloc_def bind_Inr get_output_dim_append_ac)
  from od have less: "encoder_config self < length s1"
    by (simp add: get_output_dim_Inr)
  have od3: "get_output_dim ((s1 @ [x]) @ [y]) (encoder_config self) = Inr od" for x y
    using od less by (simp add: get_output_dim_append)
  from \<open>?L\<close> v p h a od od3 show ?R
    by (simp add: init_configs_def alloc_def get_output_dim_append_ac dict_getitem_def
          split: option.splits)
next
  assume ?R
  then obtain v p h a od where
    v: "model_config_dict self ''vf_share_layers'' = Some v" and
    p: "pi_output_dim_first act = Inr p" and
    h: "model_config_dict self ''post_fcnet_hiddens'' = Some h" and
    a: "model_config_dict self ''post_fcnet_activation'' = Some a" and
    od: "get_output_dim s1 (encoder_config self) = Inr od" and
    r: "r = (\<lparr>observation_space = observation_space self, action_space = action_space self,
              model_config_dict = model_config_dict self, encoder_config = encoder_config self,
              actor_critic_encoder_config = length s1, pi_head_config = Suc (length s1),
              vf_head_config = Suc (Suc (length s1))\<rparr>,
             s1 @ [ActorCriticEncoderConfig
                    \<lparr>base_encoder_config = encoder_config self, shared = v\<rparr>,
                   MLPHeadConfig \<lparr>input_dim = od, output_dim = PInt p, hidden_layer_dims = h,
                     hidden_layer_activation = a, output_activation = PStr ''linear''\<rparr>,
                   MLPHeadConfig \<lparr>input_dim = od, output_dim = PInt 1, hidden_layer_dims = h,
                     hidden_layer_activation = a, output_activation = PStr ''linear''\<rparr>])"
    by blast
  from od have less: "encoder_config self < length s1"
    by (simp add: get_output_dim_Inr)
  have od3: "get_output_dim ((s1 @ [x]) @ [y]) (encoder_config self) = Inr od" for x y
    using od less by (simp add: get_output_dim_append)
  from v p h a od r od3 show ?L
    by (simp add: init_configs_def alloc_def get_output_dim_append_ac dict_getitem_def)
qed

lemma pi_output_dim_second_eq: "pi_output_dim_second act = pi_output_dim_first act"
  by (cases act) (simp_all add: pi_output_dim_second_def pi_output_dim_first_def py_int_def)

lemma set_input_dim_pi:
  "length s = n \<Longrightarrow>
   set_input_dim (s @ [X, MLPHeadConfig P, V]) (Suc n) v =
     Inr (s @ [X, MLPHeadConfig (P\<lparr>input_dim := v\<rparr>), V])"
  by (simp add: set_input_dim_def lookup_def nth_append list_update_append)

lemma set_output_dim_pi:
  "length s = n \<Longrightarrow>
   set_output_dim (s @ [X, MLPHeadConfig P, V]) (Suc n) v =
     Inr (s @ [X, MLPHeadConfig (P\<lparr>output_dim := v\<rparr>), V])"
  by (simp add: set_output_dim_def lookup_def nth_append list_update_append)

lemma set_output_dim_vf:
  "length s = n \<Longrightarrow>
   set_output_dim (s @ [X, Y, MLPHeadConfig V]) (Suc (Suc n)) v =
     Inr (s @ [X, Y, MLPHeadConfig (V\<lparr>output_dim := v\<rparr>)])"
  by (simp add: set_output_dim_def lookup_def nth_append list_update_append)

lemma init_set_dims_configs:
  assumes od: "get_output_dim s1 (encoder_config c) = Inr od"
    and pi: "pi_head_config c = Suc (length s1)"
    and vf: "vf_head_config c = Suc (Suc (length s1))"
    and p: "pi_output_dim_first act = Inr p"
  shows "init_set_dims c (Box [d]) act
           (s1 @ [X, MLPHeadConfig \<lparr>input_dim = od, output_dim = PInt p, hidden_layer_dims = h,
                     hidden_layer_activation = a, output_activation = l\<rparr>,
                  MLPHeadConfig \<lparr>input_dim = od, output_dim = PInt 1, hidden_layer_dims = h,
                     hidden_layer_activation = a, output_activation = l\<rparr>]) =
         bind (set_input_dim s1 (encoder_config c) (PInt d)) (\<lambda>s1'.
           Inr (c, s1' @ [X, MLPHeadConfig \<lparr>input_dim = od, output_dim = PInt p,
                     hidden_layer_dims = h,
                     hidden_layer_activation = a, output_activation = l\<rparr>,
                  MLPHeadConfig \<lparr>input_dim = od, output_dim = PInt 1, hidden_layer_dims = h,
                     hidden_layer_activation = a, output_activation = l\<rparr>]))"
proof -
  from set_input_dim_total [OF od, of "PInt d"] obtain s1' where
    s1': "set_input_dim s1 (encoder_config c) (PInt d) = Inr s1'" and
    len: "length s1' = length s1" and
    od': "get_output_dim s1' (encoder_config c) = Inr od"
    by blast
  from od' have less: "encoder_config c < length s1'"
    by (rule get_output_dim_less)
  have od'': "get_output_dim (s1' @ xs) (encoder_config c) = Inr od" for xs
    using od' less by (simp add: get_output_dim_append)
  show ?thesis
    by (simp add: init_set_dims_def shape_0_def s1' set_input_dim_append [OF s1'] od''
          set_input_dim_pi [OF len] set_output_dim_pi [OF len] set_output_dim_vf [OF len]
          pi_output_dim_second_eq p pi vf)
qed

lemma PPOCatalog_init_Inr:
  "(PPOCatalog_init C obs act mcd s0 = Inr r) =
     (\<exists>self s1 d v p h a od s1'.
        C obs act mcd s0 = Inr (self, s1) \<and>
        \<not> truthy (dict_get mcd ''free_log_std'') \<and>
        obs = Box [d] \<and>
        ((\<exists>n. act = Discrete n) \<or> (\<exists>shp. act = Box shp)) \<and>
        model_config_dict self ''vf_share_layers'' = Some v \<and>
        pi_output_dim_first act = Inr p \<and>
        model_config_dict self ''post_fcnet_hiddens'' = Some h \<and>
        model_config_dict self ''post_fcnet_activation'' = Some a \<and>
        get_output_dim s1 (encoder_config self) = Inr od \<and>
        set_input_dim s1 (encoder_config self) (PInt d) = Inr s1' \<and>
        r = (\<lparr>observation_space = observation_space self, action_space = action_space self,
              model_config_dict = model_config_dict self, encoder_config = encoder_config self,
              actor_critic_encoder_config = length s1, pi_head_config = Suc (length s1),
              vf_head_config = Suc (Suc (length s1))\<rparr>,
             s1' @ [ActorCriticEncoderConfig
                    \<lparr>base_encoder_config = encoder_config self, shared = v\<rparr>,
                   MLPHeadConfig \<lparr>input_dim = od, output_dim = PInt p, hidden_layer_dims = h,
                     hidden_layer_activation = a, output_activation = PStr ''linear''\<rparr>,
                   MLPHeadConfig \<lparr>input_dim = od, output_dim = PInt 1, hidden_layer_dims = h,
                     hidden_layer_activation = a, output_activation = PStr ''linear''\<rparr>]))"
  (is "?L = ?R")
proof (cases "C obs act mcd s0")
  case (Inl e)
  then show ?thesis by (simp add: PPOCatalog_init_def)
next
  case (Inr x)
  obtain self s1 where x: "x = (self, s1)" by (cases x)
  show ?thesis
  proof (cases "init_asserts obs act mcd")
    case (Inl e)
    with Inr x have "PPOCatalog_init C obs act mcd s0 = Inl e"
      by (simp add: PPOCatalog_init_def)
    moreover from Inl have "\<not> (\<not> truthy (dict_get mcd ''free_log_std'') \<and> (\<exists>d. obs = Box [d]) \<and>
      ((\<exists>n. act = Discrete n) \<or> (\<exists>shp. act = Box shp)))"
      using init_asserts_Inr [of obs act mcd "()"] by simp
    ultimately show ?thesis by auto
  next
    case ok: (Inr u)
    then obtain d where tr: "\<not> truthy (dict_get mcd ''free_log_std'')" and obs: "obs = Box [d]"
      and act: "(\<exists>n. act = Discrete n) \<or> (\<exists>shp. act = Box shp)"
      using init_asserts_Inr [of obs act mcd u] by auto
    have L: "PPOCatalog_init C obs act mcd s0 =
               bind (init_configs self act s1) (\<lambda>(self, s4). init_set_dims self (Box [d]) act s4)"
      using Inr x ok obs by (simp add: PPOCatalog_init_def)
    show ?thesis
    proof
      assume ?L
      with L have "bind (init_configs self act s1)
          (\<lambda>(self, s4). init_set_dims self (Box [d]) act s4) = Inr r"
        by simp
      then obtain c s4 where ic: "init_configs self act s1 = Inr (c, s4)"
        and sd: "init_set_dims c (Box [d]) act s4 = Inr r"
        unfolding bind_Inr by auto
      from ic [unfolded init_configs_Inr] obtain v p h a od where
        v: "model_config_dict self ''vf_share_layers'' = Some v" and
        p: "pi_output_dim_first act = Inr p" and
        h: "model_config_dict self ''post_fcnet_hiddens'' = Some h" and
        a: "model_config_dict self ''post_fcnet_activation'' = Some a" and
        od: "get_output_dim s1 (encoder_config self) = Inr od" and
        c: "c = \<lparr>observation_space = observation_space self, action_space = action_space self,
              model_config_dict = model_config_dict self, encoder_config = encoder_config self,
              actor_critic_encoder_config = length s1, pi_head_config = Suc (length s1),
              vf_head_config = Suc (Suc (length s1))\<rparr>" and
        s4: "s4 = s1 @ [ActorCriticEncoderConfig
                    \<lparr>base_encoder_config = encoder_config self, shared = v\<rparr>,
                   MLPHeadConfig \<lparr>input_dim = od, output_dim = PInt p, hidden_layer_dims = h,
                     hidden_layer_activation = a, output_activation = PStr ''linear''\<rparr>,
                   MLPHeadConfig \<lparr>input_dim = od, output_dim = PInt 1, hidden_layer_dims = h,
                     hidden_layer_activation = a, output_activation = PStr ''linear''\<rparr>]"
        by auto
      have odc: "get_output_dim s1 (encoder_config c) = Inr od" using od c by simp
      from set_input_dim_total [OF od, of "PInt d"] obtain s1' where
        s1': "set_input_dim s1 (encoder_config self) (PInt d) = Inr s1'" by blast
      have pic: "pi_head_config c = Suc (length s1)" and vfc: "vf_head_config c = Suc (Suc (length s1))"
        and s1'c: "set_input_dim s1 (encoder_config c) (PInt d) = Inr s1'"
        using s1' by (simp_all add: c)
      have "r = (c, s1' @ [ActorCriticEncoderConfig
                    \<lparr>base_encoder_config = encoder_config self, shared = v\<rparr>,
                   MLPHeadConfig \<lparr>input_dim = od, output_dim = PInt p, hidden_layer_dims = h,
                     hidden_layer_activation = a, output_activation = PStr ''linear''\<rparr>,
                   MLPHeadConfig \<lparr>input_dim = od, output_dim = PInt 1, hidden_layer_dims = h,
                     hidden_layer_activation = a, output_activation = PStr ''linear''\<rparr>])"
        using sd unfolding s4 init_set_dims_configs [OF odc pic vfc p] s1'c by simp
      with Inr x tr obs act v p h a od s1' c show ?R by simp
    next
      assume ?R
      then obtain v p h a od s1' where
        v: "model_config_dict self ''vf_share_layers'' = Some v" and
        p: "pi_output_dim_first act = Inr p" and
        h: "model_config_dict self ''post_fcnet_hiddens'' = Some h" and
        a: "model_config_dict self ''post_fcnet_activation'' = Some a" and
        od: "get_output_dim s1 (encoder_config self) = Inr od" and
        s1': "set_input_dim s1 (encoder_config self) (PInt d) = Inr s1'" and
        r: "r = (\<lparr>observation_space = observation_space self, action_space = action_space self,
              model_config_dict = model_config_dict self, encoder_config = encoder_config self,
              actor_critic_encoder_config = length s1, pi_head_config = Suc (length s1),
              vf_head_config = Suc (Suc (length s1))\<rparr>,
             s1' @ [ActorCriticEncoderConfig
                    \<lparr>base_encoder_config = encoder_config self, shared = v\<rparr>,
                   MLPHeadConfig \<lparr>input_dim = od, output_dim = PInt p, hidden_layer_dims = h,
                     hidden_layer_activation = a, output_activation = PStr ''linear''\<rparr>,
                   MLPHeadConfig \<lparr>input_dim = od, output_dim = PInt 1, hidden_layer_dims = h,
                     hidden_layer_activation = a, output_activation = PStr ''linear''\<rparr>])"
        using Inr x obs by auto
      define c where "c = \<lparr>observation_space = observation_space self, action_space = action_space self,
              model_config_dict = model_config_dict self, encoder_config = encoder_config self,
              actor_critic_encoder_config = length s1, pi_head_config = Suc (length s1),
              vf_head_config = Suc (Suc (length s1))\<rparr>"
      have odc: "get_output_dim s1 (encoder_config c) = Inr od" using od c_def by simp
      have ic: "init_configs self act s1 = Inr (c, s1 @ [ActorCriticEncoderConfig
                    \<lparr>base_encoder_config = encoder_config self, shared = v\<rparr>,
                   MLPHeadConfig \<lparr>input_dim = od, output_dim = PInt p, hidden_layer_dims = h,
                     hidden_layer_activation = a, output_activation = PStr ''linear''\<rparr>,
                   MLPHeadConfig \<lparr>input_dim = od, output_dim = PInt 1, hidden_layer_dims = h,
                     hidden_layer_activation = a, output_activation = PStr ''linear''\<rparr>])"
        unfolding init_configs_Inr c_def using v p h a od by simp
      have pic: "pi_head_config c = Suc (length s1)" and vfc: "vf_head_config c = Suc (Suc (length s1))"
        and s1'c: "set_input_dim s1 (encoder_config c) (PInt d) = Inr s1'"
        using s1' by (simp_all add: c_def)
      show ?L
        unfolding L ic using r
        by (simp add: init_set_dims_configs [OF odc pic vfc p] s1'c) (simp add: c_def)
    qed
  qed
qed

subsection \<open>The scenarios of the spec, evaluated\<close>

lemma scenario_discrete:
  "PPOCatalog_init (Catalog_init_with scenario_encoder) (Box [4]) (Discrete 3)
     (scenario_config True) [] =
   Inr (\<lparr>observation_space = Box [4], action_space = Discrete 3,
          model_config_dict = scenario_config True, encoder_config = 0,
          actor_critic_encoder_config = 1, pi_head_config = 2, vf_head_config = 3\<rparr>,
        [EncoderConfig \<lparr>input_dim = PInt 4, output_dim = PInt 256\<rparr>,
         ActorCriticEncoderConfig \<lparr>base_encoder_config = 0, shared = PBool True\<rparr>,
         MLPHeadConfig \<lparr>input_dim = PInt 256, output_dim = PInt 3,
           hidden_layer_dims = PList [PInt 32], hidden_layer_activation = PStr ''relu'',
           output_activation = PStr ''linear''\<rparr>,
         MLPHeadConfig \<lparr>input_dim = PInt 256, output_dim = PInt 1,
           hidden_layer_dims = PList [PInt 32], hidden_layer_activation = PStr ''relu'',
           output_activation = PStr ''linear''\<rparr>])"
  by (simp add: PPOCatalog_init_def Catalog_init_with_def alloc_def init_asserts_def
        dict_get_def dict_getitem_def scenario_config_def scenario_encoder_def
        init_configs_def init_set_dims_def pi_output_dim_first_def pi_output_dim_second_def
        py_int_def shape_0_def get_output_dim_def set_input_dim_def set_output_dim_def
        lookup_def)

lemma scenario_box:
  "PPOCatalog_init (Catalog_init_with scenario_encoder) (Box [8]) (Box [2])
     (scenario_config False) [] =
   Inr (\<lparr>observation_space = Box [8], action_space = Box [2],
          model_config_dict = scenario_config False, encoder_config = 0,
          actor_critic_encoder_config = 1, pi_head_config = 2, vf_head_config = 3\<rparr>,
        [EncoderConfig \<lparr>input_dim = PInt 8, output_dim = PInt 256\<rparr>,
         ActorCriticEncoderConfig \<lparr>base_encoder_config = 0, shared = PBool False\<rparr>,
         MLPHeadConfig \<lparr>input_dim = PInt 256, output_dim = PInt 4,
           hidden_layer_dims = PList [PInt 32], hidden_layer_activation = PStr ''relu'',
           output_activation = PStr ''linear''\<rparr>,
         MLPHeadConfig \<lparr>input_dim = PInt 256, output_dim = PInt 1,
           hidden_layer_dims = PList [PInt 32], hidden_layer_activation = PStr ''relu'',
           output_activation = PStr ''linear''\<rparr>])"
  by (simp add: PPOCatalog_init_def Catalog_init_with_def alloc_def init_asserts_def
        dict_get_def dict_getitem_def scenario_config_def scenario_encoder_def
        init_configs_def init_set_dims_def pi_output_dim_first_def pi_output_dim_second_def
        py_int_def shape_0_def get_output_dim_def set_input_dim_def set_output_dim_def
        lookup_def)

lemma get_output_dim_pi:
  "length s = n \<Longrightarrow> get_output_dim (s @ [X, MLPHeadConfig P, V]) (Suc n) = Inr (output_dim P)"
  by (simp add: get_output_dim_def lookup_def nth_append)

lemma get_output_dim_vf:
  "length s = n \<Longrightarrow>
   get_output_dim (s @ [X, Y, MLPHeadConfig V]) (Suc (Suc n)) = Inr (output_dim V)"
  by (simp add: get_output_dim_def lookup_def nth_append)

lemma set_input_dim_get_input_dim:
  "set_input_dim s a v = Inr s' \<Longrightarrow> get_input_dim (s' @ xs) a = Inr v"
  by (auto simp: set_input_dim_Inr get_input_dim_def lookup_def nth_append)

lemma pi_output_dim_first_Inr:
  "(pi_output_dim_first act = Inr p) =
     (act = Discrete p \<or> (\<exists>k rest. act = Box (k # rest) \<and> p = k * 2) \<or>
      (\<exists>k rest. act = OtherSpace (Some (k # rest)) \<and> p = k * 2))"
  by (cases act)
     (auto simp: pi_output_dim_first_def shape_0_def split: list.splits option.splits)

subsection \<open>The configs after construction\<close>

text \<open>
  C1. After a construction that returned, the policy head config's output dimension is
  the number of categories \<open>n\<close> of a Discrete action space, and twice the first extent
  \<open>k\<close> of the shape of a Box action space; the action space is one of the two.
\<close>

theorem pi_head_output_dim:
  assumes "PPOCatalog_init C obs act mcd s0 = Inr (c, s')"
  shows "((\<exists>n. act = Discrete n) \<or> (\<exists>k rest. act = Box (k # rest))) \<and>
         (\<forall>n. act = Discrete n \<longrightarrow> get_output_dim s' (pi_head_config c) = Inr (PInt n)) \<and>
         (\<forall>k rest. act = Box (k # rest) \<longrightarrow>
            get_output_dim s' (pi_head_config c) = Inr (PInt (2 * k)))"
proof -
  from assms [unfolded PPOCatalog_init_Inr] obtain self :: catalog and s1 d v p h a od s1' where
    act: "(\<exists>n. act = Discrete n) \<or> (\<exists>shp. act = Box shp)" and
    p: "pi_output_dim_first act = Inr p" and
    s1': "set_input_dim s1 (encoder_config self) (PInt d) = Inr s1'" and
    c: "pi_head_config c = Suc (length s1)" and
    s': "s' = s1' @ [ActorCriticEncoderConfig
                    \<lparr>base_encoder_config = encoder_config self, shared = v\<rparr>,
                   MLPHeadConfig \<lparr>input_dim = od, output_dim = PInt p, hidden_layer_dims = h,
                     hidden_layer_activation = a, output_activation = PStr ''linear''\<rparr>,
                   MLPHeadConfig \<lparr>input_dim = od, output_dim = PInt 1, hidden_layer_dims = h,
                     hidden_layer_activation = a, output_activation = PStr ''linear''\<rparr>]"
    by auto
  have len: "length s1' = length s1"
    using s1' by (rule set_input_dim_length)
  have out: "get_output_dim s' (pi_head_config c) = Inr (PInt p)"
    unfolding s' c by (simp add: get_output_dim_pi [OF len])
  from p act out show ?thesis
    by (auto simp: pi_output_dim_first_Inr)
qed

theorem pi_head_output_dim_witness:
  "(case PPOCatalog_init (Catalog_init_with scenario_encoder) (Box [4]) (Discrete 3)
           (scenario_config True) [] of
      Inl e \<Rightarrow> False
    | Inr (c, s') \<Rightarrow> get_output_dim s' (pi_head_config c) = Inr (PInt 3)) \<and>
   (case PPOCatalog_init (Catalog_init_with scenario_encoder) (Box [8]) (Box [2])
           (scenario_config False) [] of
      Inl e \<Rightarrow> False
    | Inr (c, s') \<Rightarrow> get_output_dim s' (pi_head_config c) = Inr (PInt (2 * 2)))"
  using pi_head_output_dim [OF scenario_discrete] pi_head_output_dim [OF scenario_box]
  by (simp add: scenario_discrete scenario_box)

text \<open>
  C2. After a construction that returned, the value head config's output dimension is 1,
  whatever the spaces and the dictionary.
\<close>

theorem vf_head_output_dim:
  assumes "PPOCatalog_init C obs act mcd s0 = Inr (c, s')"
  shows "get_output_dim s' (vf_head_config c) = Inr (PInt 1)"
proof -
  from assms [unfolded PPOCatalog_init_Inr] obtain self :: catalog and s1 d v p h a od s1' where
    s1': "set_input_dim s1 (encoder_config self) (PInt d) = Inr s1'" and
    c: "vf_head_config c = Suc (Suc (length s1))" and
    s': "s' = s1' @ [ActorCriticEncoderConfig
                    \<lparr>base_encoder_config = encoder_config self, shared = v\<rparr>,
                   MLPHeadConfig \<lparr>input_dim = od, output_dim = PInt p, hidden_layer_dims = h,
                     hidden_layer_activation = a, output_activation = PStr ''linear''\<rparr>,
                   MLPHeadConfig \<lparr>input_dim = od, output_dim = PInt 1, hidden_layer_dims = h,
                     hidden_layer_activation = a, output_activation = PStr ''linear''\<rparr>]"
    by auto
  have len: "length s1' = length s1"
    using s1' by (rule set_input_dim_length)
  show ?thesis
    unfolding s' c by (simp add: get_output_dim_vf [OF len])
qed

theorem vf_head_output_dim_witness:
  "(case PPOCatalog_init (Catalog_init_with scenario_encoder) (Box [8]) (Box [2])
           (scenario_config False) [] of
      Inl e \<Rightarrow> False
    | Inr (c, s') \<Rightarrow> get_output_dim s' (vf_head_config c) = Inr (PInt 1))"
  using vf_head_output_dim [OF scenario_box]
  by (simp add: scenario_box)

text \<open>
  C3. For a one-dimensional Box observation space of dimension \<open>d\<close>, after a
  construction that returned the encoder config's input dimension is \<open>d\<close>.
\<close>

theorem encoder_input_dim:
  assumes "PPOCatalog_init C (Box [d]) act mcd s0 = Inr (c, s')"
  shows "get_input_dim s' (encoder_config c) = Inr (PInt d)"
proof -
  from assms [unfolded PPOCatalog_init_Inr] obtain self :: catalog and s1 v p h a od s1' where
    s1': "set_input_dim s1 (encoder_config self) (PInt d) = Inr s1'" and
    c: "encoder_config c = encoder_config self" and
    s': "s' = s1' @ [ActorCriticEncoderConfig
                    \<lparr>base_encoder_config = encoder_config self, shared = v\<rparr>,
                   MLPHeadConfig \<lparr>input_dim = od, output_dim = PInt p, hidden_layer_dims = h,
                     hidden_layer_activation = a, output_activation = PStr ''linear''\<rparr>,
                   MLPHeadConfig \<lparr>input_dim = od, output_dim = PInt 1, hidden_layer_dims = h,
                     hidden_layer_activation = a, output_activation = PStr ''linear''\<rparr>]"
    by auto
  show ?thesis
    unfolding s' c by (rule set_input_dim_get_input_dim [OF s1'])
qed

theorem encoder_input_dim_witness:
  "(case PPOCatalog_init (Catalog_init_with scenario_encoder) (Box [4]) (Discrete 3)
           (scenario_config True) [] of
      Inl e \<Rightarrow> False
    | Inr (c, s') \<Rightarrow> get_input_dim s' (encoder_config c) = Inr (PInt 4))"
  using encoder_input_dim [OF scenario_discrete]
  by (simp add: scenario_discrete)

text \<open>
  C9. After a construction that returned, the actor-critic encoder config holds the
  value stored under \<^verbatim>\<open>vf_share_layers\<close> in the catalog's model config dictionary as
  its \<^verbatim>\<open>shared\<close> flag, as it is, and its base encoder config is the catalog's encoder
  config, the same object; dictionary and encoder config are those the superclass
  constructor set.
\<close>

theorem actor_critic_encoder_config_fields:
  assumes "PPOCatalog_init C obs act mcd s0 = Inr (c, s')"
  shows "\<exists>v self s1.
           C obs act mcd s0 = Inr (self, s1) \<and>
           model_config_dict c = model_config_dict self \<and>
           encoder_config c = encoder_config self \<and>
           model_config_dict c ''vf_share_layers'' = Some v \<and>
           lookup s' (actor_critic_encoder_config c) =
             Some (ActorCriticEncoderConfig
                     \<lparr>base_encoder_config = encoder_config c, shared = v\<rparr>)"
proof -
  from assms [unfolded PPOCatalog_init_Inr] obtain self :: catalog and s1 d v p h a od s1' where
    sup: "C obs act mcd s0 = Inr (self, s1)" and
    v: "model_config_dict self ''vf_share_layers'' = Some v" and
    s1': "set_input_dim s1 (encoder_config self) (PInt d) = Inr s1'" and
    c: "c = \<lparr>observation_space = observation_space self, action_space = action_space self,
              model_config_dict = model_config_dict self, encoder_config = encoder_config self,
              actor_critic_encoder_config = length s1, pi_head_config = Suc (length s1),
              vf_head_config = Suc (Suc (length s1))\<rparr>" and
    s': "s' = s1' @ [ActorCriticEncoderConfig
                    \<lparr>base_encoder_config = encoder_config self, shared = v\<rparr>,
                   MLPHeadConfig \<lparr>input_dim = od, output_dim = PInt p, hidden_layer_dims = h,
                     hidden_layer_activation = a, output_activation = PStr ''linear''\<rparr>,
                   MLPHeadConfig \<lparr>input_dim = od, output_dim = PInt 1, hidden_layer_dims = h,
                     hidden_layer_activation = a, output_activation = PStr ''linear''\<rparr>]"
    by auto
  have len: "length s1 = length s1'"
    using set_input_dim_length [OF s1'] by simp
  have "lookup s' (actor_critic_encoder_config c) =
          Some (ActorCriticEncoderConfig
                  \<lparr>base_encoder_config = encoder_config c, shared = v\<rparr>)"
    unfolding s' c by (simp add: len lookup_new)
  with sup v c show ?thesis by simp
qed

theorem actor_critic_encoder_config_fields_witness:
  "(case PPOCatalog_init (Catalog_init_with scenario_encoder) (Box [8]) (Box [2])
           (scenario_config False) [] of
      Inl e \<Rightarrow> False
    | Inr (c, s') \<Rightarrow>
        model_config_dict c ''vf_share_layers'' = Some (PBool False) \<and>
        lookup s' (actor_critic_encoder_config c) =
          Some (ActorCriticEncoderConfig
                  \<lparr>base_encoder_config = encoder_config c, shared = PBool False\<rparr>))"
  using actor_critic_encoder_config_fields [OF scenario_box]
  by (simp add: scenario_box) (auto simp: scenario_config_def lookup_def)

subsection \<open>The assertions\<close>

lemma Catalog_init_with_eq:
  "Catalog_init_with enc obs act mcd s =
     Inr (\<lparr>observation_space = obs, action_space = act, model_config_dict = mcd,
            encoder_config = length s\<rparr>, s @ [EncoderConfig enc])"
  by (simp add: Catalog_init_with_def alloc_def)

lemma init_asserts_free_log_std:
  "truthy (dict_get mcd ''free_log_std'') \<Longrightarrow>
     init_asserts obs act mcd = Inl (AssertionError (PStr ''free_log_std not supported yet.''))"
  by (simp add: init_asserts_def)

lemma init_asserts_observation_space:
  "\<not> truthy (dict_get mcd ''free_log_std'') \<Longrightarrow> \<forall>d. obs \<noteq> Box [d] \<Longrightarrow>
     \<exists>e. init_asserts obs act mcd = Inl e \<and> unsupported_space_error e"
  by (cases obs)
     (auto simp: init_asserts_def unsupported_space_error_def length_Suc_conv)

lemma init_asserts_action_space:
  "\<not> truthy (dict_get mcd ''free_log_std'') \<Longrightarrow>
   \<forall>n. act \<noteq> Discrete n \<Longrightarrow> \<forall>shp. act \<noteq> Box shp \<Longrightarrow>
     \<exists>e. init_asserts obs act mcd = Inl e \<and> unsupported_space_error e"
  by (cases obs; cases act)
     (auto simp: init_asserts_def unsupported_space_error_def)

text \<open>
  C4. Where the dictionary passed to the constructor maps \<^verbatim>\<open>free_log_std\<close> to a truthy
  value and the superclass constructor has returned, construction fails with the
  assertion error of line 49, whatever the spaces and the rest of the dictionary.
\<close>

theorem free_log_std_unsupported:
  assumes "C obs act mcd s0 = Inr (self, s1)"
    and "mcd ''free_log_std'' = Some v" and "truthy v"
  shows "PPOCatalog_init C obs act mcd s0 =
           Inl (AssertionError (PStr ''free_log_std not supported yet.''))"
proof -
  from assms(2,3) have "truthy (dict_get mcd ''free_log_std'')"
    by (simp add: dict_get_def)
  then have "init_asserts obs act mcd =
      Inl (AssertionError (PStr ''free_log_std not supported yet.''))"
    by (rule init_asserts_free_log_std)
  with assms(1) show ?thesis
    by (simp add: PPOCatalog_init_def)
qed

theorem free_log_std_unsupported_witness:
  "PPOCatalog_init (Catalog_init_with scenario_encoder) (Box [4]) (Discrete 3)
     ((scenario_config True)(''free_log_std'' \<mapsto> PBool True)) [] =
   Inl (AssertionError (PStr ''free_log_std not supported yet.''))"
  by (rule free_log_std_unsupported
        [where C = "Catalog_init_with scenario_encoder" and v = "PBool True",
         OF Catalog_init_with_eq])
     simp_all

text \<open>
  C5, as the claim states it, fails: a two-dimensional observation space together with
  a truthy \<^verbatim>\<open>free_log_std\<close> fails with the assertion error of line 49, which is
  checked first, and that is not one of the errors for an unsupported space.
\<close>

theorem unsupported_space_counterexample:
  "PPOCatalog_init (Catalog_init_with scenario_encoder) (Box [84, 84]) (Discrete 2)
     ((scenario_config True)(''free_log_std'' \<mapsto> PBool True)) [] =
   Inl (AssertionError (PStr ''free_log_std not supported yet.'')) \<and>
   unsupported_feature_error (AssertionError (PStr ''free_log_std not supported yet.'')) \<and>
   \<not> unsupported_space_error (AssertionError (PStr ''free_log_std not supported yet.''))"
  by (simp add: PPOCatalog_init_def Catalog_init_with_eq init_asserts_def dict_get_def
        unsupported_space_error_def unsupported_feature_error_def)

text \<open>
  C5, amended. Where \<^verbatim>\<open>free_log_std\<close> is absent or falsy in the dictionary passed and
  the superclass constructor has returned: an observation space that is not a
  one-dimensional Box makes construction fail with one of the assertion errors for an
  unsupported space, and so does an action space that is neither Discrete nor Box.
\<close>

theorem unsupported_space_rejected:
  assumes "C obs act mcd s0 = Inr (self, s1)"
    and "\<not> truthy (dict_get mcd ''free_log_std'')"
  shows "((\<forall>d. obs \<noteq> Box [d]) \<longrightarrow>
            (\<exists>e. PPOCatalog_init C obs act mcd s0 = Inl e \<and> unsupported_space_error e)) \<and>
         ((\<forall>n. act \<noteq> Discrete n) \<and> (\<forall>shp. act \<noteq> Box shp) \<longrightarrow>
            (\<exists>e. PPOCatalog_init C obs act mcd s0 = Inl e \<and> unsupported_space_error e))"
proof -
  have fail: "PPOCatalog_init C obs act mcd s0 = Inl e" if "init_asserts obs act mcd = Inl e" for e
    using assms(1) that by (simp add: PPOCatalog_init_def)
  show ?thesis
    using init_asserts_observation_space [OF assms(2), of obs act]
      init_asserts_action_space [OF assms(2), of act obs] fail
    by blast
qed

theorem unsupported_space_rejected_witness:
  "(\<exists>e. PPOCatalog_init (Catalog_init_with scenario_encoder) (Box [84, 84]) (Discrete 2)
           (scenario_config True) [] = Inl e \<and> unsupported_space_error e) \<and>
   (\<exists>e. PPOCatalog_init (Catalog_init_with scenario_encoder) (Box [4])
           (OtherSpace (Some [3])) (scenario_config True) [] = Inl e \<and>
         unsupported_space_error e)"
proof -
  have free: "\<not> truthy (dict_get (scenario_config True) ''free_log_std'')"
    by (simp add: dict_get_def scenario_config_def)
  from unsupported_space_rejected
         [where C = "Catalog_init_with scenario_encoder" and obs = "Box [84, 84]"
            and act = "Discrete 2" and ?s0.0 = "[]", OF Catalog_init_with_eq free]
    unsupported_space_rejected
         [where C = "Catalog_init_with scenario_encoder" and obs = "Box [4]"
            and act = "OtherSpace (Some [3])" and ?s0.0 = "[]", OF Catalog_init_with_eq free]
  show ?thesis by simp
qed

subsection \<open>The builders\<close>

text \<open>
  C6. On every catalog and store, hence on every constructed one, and for every
  framework argument, \<^verbatim>\<open>build_encoder\<close> raises the not-implemented error and returns
  no module; catalog and store after the call are those before it.
\<close>

theorem build_encoder_raises:
  "build_encoder framework (c, s) =
     (Inl (NotImplementedError ''Use PPOCatalog.build_actor_critic_encoder() instead.''),
      (c, s))"
  by (simp add: build_encoder_def)

text \<open>
  C8. For every framework argument and every builder of the configuration classes,
  each of \<^verbatim>\<open>build_actor_critic_encoder\<close>, \<^verbatim>\<open>build_pi_head\<close> and \<^verbatim>\<open>build_vf_head\<close>
  leaves the catalog (the addresses of its four configs) and the store (the fields of
  every config) as they were, and returns what the builder returns for the config.
\<close>

theorem builders_leave_state:
  "build_actor_critic_encoder bld framework (c, s) =
     (bld s (actor_critic_encoder_config c) framework, (c, s)) \<and>
   build_pi_head bld framework (c, s) = (bld s (pi_head_config c) framework, (c, s)) \<and>
   build_vf_head bld framework (c, s) = (bld s (vf_head_config c) framework, (c, s))"
  by (simp add: build_actor_critic_encoder_def build_pi_head_def build_vf_head_def
        config_build_def)

subsection \<open>The single-pass construction\<close>

lemma dict_getitem_Inr: "(dict_getitem m k = Inr v) = (m k = Some v)"
  by (simp add: dict_getitem_def split: option.splits)

lemma resolve_dims_Inr:
  "(resolve_dims (Box [d]) act = Inr x) =
     (\<exists>p. pi_output_dim_first act = Inr p \<and> x = (d, p, 1))"
  by (cases act)
     (auto simp: resolve_dims_def shape_0_def pi_output_dim_first_def bind_Inr
        split: list.splits option.splits)

lemma construct_single_pass_Inr:
  "(construct_single_pass self d p vo s1 = Inr r) =
     (\<exists>v h a od s1'.
        model_config_dict self ''vf_share_layers'' = Some v \<and>
        model_config_dict self ''post_fcnet_hiddens'' = Some h \<and>
        model_config_dict self ''post_fcnet_activation'' = Some a \<and>
        get_output_dim s1 (encoder_config self) = Inr od \<and>
        set_input_dim s1 (encoder_config self) (PInt d) = Inr s1' \<and>
        r = (\<lparr>observation_space = observation_space self, action_space = action_space self,
              model_config_dict = model_config_dict self, encoder_config = encoder_config self,
              actor_critic_encoder_config = length s1, pi_head_config = Suc (length s1),
              vf_head_config = Suc (Suc (length s1))\<rparr>,
             s1' @ [ActorCriticEncoderConfig
                    \<lparr>base_encoder_config = encoder_config self, shared = v\<rparr>,
                   MLPHeadConfig \<lparr>input_dim = od, output_dim = PInt p, hidden_layer_dims = h,
                     hidden_layer_activation = a, output_activation = PStr ''linear''\<rparr>,
                   MLPHeadConfig \<lparr>input_dim = od, output_dim = PInt vo, hidden_layer_dims = h,
                     hidden_layer_activation = a, output_activation = PStr ''linear''\<rparr>]))"
  (is "?L = ?R")
proof
  assume ?L
  then obtain v h a s2 od where
    v: "model_config_dict self ''vf_share_layers'' = Some v" and
    h: "model_config_dict self ''post_fcnet_hiddens'' = Some h" and
    a: "model_config_dict self ''post_fcnet_activation'' = Some a" and
    s2: "set_input_dim s1 (encoder_config self) (PInt d) = Inr s2" and
    od: "get_output_dim s2 (encoder_config self) = Inr od" and
    r: "r = (\<lparr>observation_space = observation_space self, action_space = action_space self,
              model_config_dict = model_config_dict self, encoder_config = encoder_config self,
              actor_critic_encoder_config = length s2, pi_head_config = Suc (length s2),
              vf_head_config = Suc (Suc (length s2))\<rparr>,
             s2 @ [ActorCriticEncoderConfig
                    \<lparr>base_encoder_config = encoder_config self, shared = v\<rparr>,
                   MLPHeadConfig \<lparr>input_dim = od, output_dim = PInt p, hidden_layer_dims = h,
                     hidden_layer_activation = a, output_activation = PStr ''linear''\<rparr>,
                   MLPHeadConfig \<lparr>input_dim = od, output_dim = PInt vo, hidden_layer_dims = h,
                     hidden_layer_activation = a, output_activation = PStr ''linear''\<rparr>])"
    by (auto simp: construct_single_pass_def bind_Inr dict_getitem_Inr alloc_def)
  from od have "get_output_dim s1 (encoder_config self) = Inr od"
    by (simp add: set_input_dim_get_output_dim [OF s2])
  with v h a s2 r set_input_dim_length [OF s2] show ?R
    by simp
next
  assume ?R
  then obtain v h a od s1' where
    v: "model_config_dict self ''vf_share_layers'' = Some v" and
    h: "model_config_dict self ''post_fcnet_hiddens'' = Some h" and
    a: "model_config_dict self ''post_fcnet_activation'' = Some a" and
    od: "get_output_dim s1 (encoder_config self) = Inr od" and
    s1': "set_input_dim s1 (encoder_config self) (PInt d) = Inr s1'" and
    r: "r = (\<lparr>observation_space = observation_space self, action_space = action_space self,
              model_config_dict = model_config_dict self, encoder_config = encoder_config self,
              actor_critic_encoder_config = length s1, pi_head_config = Suc (length s1),
              vf_head_config = Suc (Suc (length s1))\<rparr>,
             s1' @ [ActorCriticEncoderConfig
                    \<lparr>base_encoder_config = encoder_config self, shared = v\<rparr>,
                   MLPHeadConfig \<lparr>input_dim = od, output_dim = PInt p, hidden_layer_dims = h,
                     hidden_layer_activation = a, output_activation = PStr ''linear''\<rparr>,
                   MLPHeadConfig \<lparr>input_dim = od, output_dim = PInt vo, hidden_layer_dims = h,
                     hidden_layer_activation = a, output_activation = PStr ''linear''\<rparr>])"
    by blast
  from od have od': "get_output_dim s1' (encoder_config self) = Inr od"
    by (simp add: set_input_dim_get_output_dim [OF s1'])
  from v h a s1' od' r set_input_dim_length [OF s1'] show ?L
    by (simp add: construct_single_pass_def dict_getitem_def alloc_def)
qed

text \<open>
  C7. The constructor of the source (configs built first, dimensions written again
  afterwards) and the single-pass construction (dimensions resolved first, every field
  written once) return on the same inputs, and then return the same catalog and the same
  store: every field of every config has the same final value.
\<close>

theorem single_pass_same_result:
  "(PPOCatalog_init C obs act mcd s0 = Inr r) =
   (PPOCatalog_init_single_pass C obs act mcd s0 = Inr r)"
proof (cases "C obs act mcd s0")
  case (Inl e)
  then show ?thesis
    by (simp add: PPOCatalog_init_def PPOCatalog_init_single_pass_def)
next
  case (Inr x)
  obtain self s1 where x: "x = (self, s1)" by (cases x)
  show ?thesis
  proof (cases "init_asserts obs act mcd")
    case (Inl e)
    with Inr x show ?thesis
      by (simp add: PPOCatalog_init_def PPOCatalog_init_single_pass_def)
  next
    case ok: (Inr u)
    then obtain d where obs: "obs = Box [d]"
      using init_asserts_Inr [of obs act mcd u] by auto
    have two: "(PPOCatalog_init C obs act mcd s0 = Inr r) =
        (\<exists>c s4. init_configs self act s1 = Inr (c, s4) \<and>
                init_set_dims c (Box [d]) act s4 = Inr r)"
      using Inr x ok obs by (simp add: PPOCatalog_init_def bind_Inr)
    have one: "(PPOCatalog_init_single_pass C obs act mcd s0 = Inr r) =
        (\<exists>p. pi_output_dim_first act = Inr p \<and>
             construct_single_pass self d p 1 s1 = Inr r)"
      using Inr x ok obs
      by (simp add: PPOCatalog_init_single_pass_def bind_Inr resolve_dims_Inr)
    show ?thesis
    proof
      assume "PPOCatalog_init C obs act mcd s0 = Inr r"
      then obtain c s4 where ic: "init_configs self act s1 = Inr (c, s4)"
        and sd: "init_set_dims c (Box [d]) act s4 = Inr r"
        unfolding two by blast
      from ic [unfolded init_configs_Inr] obtain v p h a od where
        v: "model_config_dict self ''vf_share_layers'' = Some v" and
        p: "pi_output_dim_first act = Inr p" and
        h: "model_config_dict self ''post_fcnet_hiddens'' = Some h" and
        a: "model_config_dict self ''post_fcnet_activation'' = Some a" and
        od: "get_output_dim s1 (encoder_config self) = Inr od" and
        c: "c = \<lparr>observation_space = observation_space self, action_space = action_space self,
              model_config_dict = model_config_dict self, encoder_config = encoder_config self,
              actor_critic_encoder_config = length s1, pi_head_config = Suc (length s1),
              vf_head_config = Suc (Suc (length s1))\<rparr>" and
        s4: "s4 = s1 @ [ActorCriticEncoderConfig
                    \<lparr>base_encoder_config = encoder_config self, shared = v\<rparr>,
                   MLPHeadConfig \<lparr>input_dim = od, output_dim = PInt p, hidden_layer_dims = h,
                     hidden_layer_activation = a, output_activation = PStr ''linear''\<rparr>,
                   MLPHeadConfig \<lparr>input_dim = od, output_dim = PInt 1, hidden_layer_dims = h,
                     hidden_layer_activation = a, output_activation = PStr ''linear''\<rparr>]"
        by auto
      from set_input_dim_total [OF od, of "PInt d"] obtain s1' where
        s1': "set_input_dim s1 (encoder_config self) (PInt d) = Inr s1'" by blast
      have odc: "get_output_dim s1 (encoder_config c) = Inr od"
        and pic: "pi_head_config c = Suc (length s1)"
        and vfc: "vf_head_config c = Suc (Suc (length s1))"
        and s1'c: "set_input_dim s1 (encoder_config c) (PInt d) = Inr s1'"
        using od s1' by (simp_all add: c)
      have "r = (c, s1' @ [ActorCriticEncoderConfig
                    \<lparr>base_encoder_config = encoder_config self, shared = v\<rparr>,
                   MLPHeadConfig \<lparr>input_dim = od, output_dim = PInt p, hidden_layer_dims = h,
                     hidden_layer_activation = a, output_activation = PStr ''linear''\<rparr>,
                   MLPHeadConfig \<lparr>input_dim = od, output_dim = PInt 1, hidden_layer_dims = h,
                     hidden_layer_activation = a, output_activation = PStr ''linear''\<rparr>])"
        using sd unfolding s4 init_set_dims_configs [OF odc pic vfc p] s1'c by simp
      with v h a od s1' c have "construct_single_pass self d p 1 s1 = Inr r"
        unfolding construct_single_pass_Inr by simp
      with p show "PPOCatalog_init_single_pass C obs act mcd s0 = Inr r"
        unfolding one by blast
    next
      assume "PPOCatalog_init_single_pass C obs act mcd s0 = Inr r"
      then obtain p where p: "pi_output_dim_first act = Inr p"
        and cs: "construct_single_pass self d p 1 s1 = Inr r"
        unfolding one by blast
      from cs [unfolded construct_single_pass_Inr] obtain v h a od s1' where
        v: "model_config_dict self ''vf_share_layers'' = Some v" and
        h: "model_config_dict self ''post_fcnet_hiddens'' = Some h" and
        a: "model_config_dict self ''post_fcnet_activation'' = Some a" and
        od: "get_output_dim s1 (encoder_config self) = Inr od" and
        s1': "set_input_dim s1 (encoder_config self) (PInt d) = Inr s1'" and
        r: "r = (\<lparr>observation_space = observation_space self, action_space = action_space self,
              model_config_dict = model_config_dict self, encoder_config = encoder_config self,
              actor_critic_encoder_config = length s1, pi_head_config = Suc (length s1),
              vf_head_config = Suc (Suc (length s1))\<rparr>,
             s1' @ [ActorCriticEncoderConfig
                    \<lparr>base_encoder_config = encoder_config self, shared = v\<rparr>,
                   MLPHeadConfig \<lparr>input_dim = od, output_dim = PInt p, hidden_layer_dims = h,
                     hidden_layer_activation = a, output_activation = PStr ''linear''\<rparr>,
                   MLPHeadConfig \<lparr>input_dim = od, output_dim = PInt 1, hidden_layer_dims = h,
                     hidden_layer_activation = a, output_activation = PStr ''linear''\<rparr>])"
        by blast
      define c where "c = \<lparr>observation_space = observation_space self,
              action_space = action_space self,
              model_config_dict = model_config_dict self, encoder_config = encoder_config self,
              actor_critic_encoder_config = length s1, pi_head_config = Suc (length s1),
              vf_head_config = Suc (Suc (length s1))\<rparr>"
      have odc: "get_output_dim s1 (encoder_config c) = Inr od"
        and pic: "pi_head_config c = Suc (length s1)"
        and vfc: "vf_head_config c = Suc (Suc (length s1))"
        and s1'c: "set_input_dim s1 (encoder_config c) (PInt d) = Inr s1'"
        using od s1' by (simp_all add: c_def)
      have ic: "init_configs self act s1 = Inr (c, s1 @ [ActorCriticEncoderConfig
                    \<lparr>base_encoder_config = encoder_config self, shared = v\<rparr>,
                   MLPHeadConfig \<lparr>input_dim = od, output_dim = PInt p, hidden_layer_dims = h,
                     hidden_layer_activation = a, output_activation = PStr ''linear''\<rparr>,
                   MLPHeadConfig \<lparr>input_dim = od, output_dim = PInt 1, hidden_layer_dims = h,
                     hidden_layer_activation = a, output_activation = PStr ''linear''\<rparr>])"
        unfolding init_configs_Inr c_def using v p h a od by simp
      have "init_set_dims c (Box [d]) act (s1 @ [ActorCriticEncoderConfig
                    \<lparr>base_encoder_config = encoder_config self, shared = v\<rparr>,
                   MLPHeadConfig \<lparr>input_dim = od, output_dim = PInt p, hidden_layer_dims = h,
                     hidden_layer_activation = a, output_activation = PStr ''linear''\<rparr>,
                   MLPHeadConfig \<lparr>input_dim = od, output_dim = PInt 1, hidden_layer_dims = h,
                     hidden_layer_activation = a, output_activation = PStr ''linear''\<rparr>]) = Inr r"
        unfolding init_set_dims_configs [OF odc pic vfc p] s1'c using r by (simp add: c_def)
      with ic show "PPOCatalog_init C obs act mcd s0 = Inr r"
        unfolding two by blast
    qed
  qed
qed

theorem single_pass_same_result_witness:
  "PPOCatalog_init_single_pass (Catalog_init_with scenario_encoder) (Box [8]) (Box [2])
     (scenario_config False) [] =
   Inr (\<lparr>observation_space = Box [8], action_space = Box [2],
          model_config_dict = scenario_config False, encoder_config = 0,
          actor_critic_encoder_config = 1, pi_head_config = 2, vf_head_config = 3\<rparr>,
        [EncoderConfig \<lparr>input_dim = PInt 8, output_dim = PInt 256\<rparr>,
         ActorCriticEncoderConfig \<lparr>base_encoder_config = 0, shared = PBool False\<rparr>,
         MLPHeadConfig \<lparr>input_dim = PInt 256, output_dim = PInt 4,
           hidden_layer_dims = PList [PInt 32], hidden_layer_activation = PStr ''relu'',
           output_activation = PStr ''linear''\<rparr>,
         MLPHeadConfig \<lparr>input_dim = PInt 256, output_dim = PInt 1,
           hidden_layer_dims = PList [PInt 32], hidden_layer_activation = PStr ''relu'',
           output_activation = PStr ''linear''\<rparr>])"
  using scenario_box unfolding single_pass_same_result .

subsection \<open>Missing keys\<close>

lemma init_asserts_ok:
  assumes "mcd ''free_log_std'' = None \<or> (\<exists>v. mcd ''free_log_std'' = Some v \<and> \<not> truthy v)"
    and "(\<exists>n. act = Discrete n) \<or> (\<exists>shp. act = Box shp)"
  shows "init_asserts (Box [d]) act mcd = Inr ()"
  using assms by (auto simp: init_asserts_def dict_get_def)

text \<open>
  C10, as the claim states it, fails: with a dictionary that lacks all three keys (and a
  superclass constructor that keeps the dictionary as it is passed), a two-dimensional
  observation space fails with the descriptive assertion error for the space, raised
  before any key is looked up.
\<close>

theorem missing_key_counterexample:
  "PPOCatalog_init (Catalog_init_with scenario_encoder) (Box [84, 84]) (Discrete 2)
     Map.empty [] =
   Inl (AssertionError
     (PStr ''This simple PPO Module only supports 1D observation spaces.'')) \<and>
   unsupported_space_error (AssertionError
     (PStr ''This simple PPO Module only supports 1D observation spaces.''))"
  by (simp add: PPOCatalog_init_def Catalog_init_with_eq init_asserts_def dict_get_def
        unsupported_space_error_def)

text \<open>
  C10, amended. Where the assertions pass (\<^verbatim>\<open>free_log_std\<close> absent from the dictionary
  passed, or falsy; a one-dimensional Box observation space; a Discrete or Box action
  space) and the superclass constructor has returned, a catalog dictionary without
  \<^verbatim>\<open>vf_share_layers\<close> makes construction fail with the key error for that key; with
  that key present and an action space whose shape is not empty, a missing
  \<^verbatim>\<open>post_fcnet_hiddens\<close>, and then a missing \<^verbatim>\<open>post_fcnet_activation\<close>, fail with
  the key error for that key. The absent \<^verbatim>\<open>free_log_std\<close> raises nothing.
\<close>

theorem missing_key_error:
  assumes sup: "C obs act mcd s0 = Inr (self, s1)"
    and free: "mcd ''free_log_std'' = None \<or>
               (\<exists>v. mcd ''free_log_std'' = Some v \<and> \<not> truthy v)"
    and obs: "obs = Box [d]"
    and act: "(\<exists>n. act = Discrete n) \<or> (\<exists>shp. act = Box shp)"
  shows "(model_config_dict self ''vf_share_layers'' = None \<longrightarrow>
            PPOCatalog_init C obs act mcd s0 = Inl (KeyError ''vf_share_layers'')) \<and>
         (model_config_dict self ''vf_share_layers'' \<noteq> None \<and> act \<noteq> Box [] \<and>
          model_config_dict self ''post_fcnet_hiddens'' = None \<longrightarrow>
            PPOCatalog_init C obs act mcd s0 = Inl (KeyError ''post_fcnet_hiddens'')) \<and>
         (model_config_dict self ''vf_share_layers'' \<noteq> None \<and> act \<noteq> Box [] \<and>
          model_config_dict self ''post_fcnet_hiddens'' \<noteq> None \<and>
          model_config_dict self ''post_fcnet_activation'' = None \<longrightarrow>
            PPOCatalog_init C obs act mcd s0 = Inl (KeyError ''post_fcnet_activation''))"
proof -
  have init: "PPOCatalog_init C obs act mcd s0 =
      bind (init_configs self act s1) (\<lambda>(self, s4). init_set_dims self obs act s4)"
    using sup init_asserts_ok [where mcd = mcd and act = act and d = d, OF free act] obs
    by (simp add: PPOCatalog_init_def)
  have pi: "\<exists>p. pi_output_dim_first act = Inr p" if "act \<noteq> Box []"
    using act that
    by (auto simp: pi_output_dim_first_def shape_0_def split: list.splits)
  have 1: "init_configs self act s1 = Inl (KeyError ''vf_share_layers'')"
    if "model_config_dict self ''vf_share_layers'' = None"
    using that by (simp add: init_configs_def dict_getitem_def)
  have 2: "init_configs self act s1 = Inl (KeyError ''post_fcnet_hiddens'')"
    if "model_config_dict self ''vf_share_layers'' \<noteq> None" "act \<noteq> Box []"
       "model_config_dict self ''post_fcnet_hiddens'' = None"
    using that pi by (auto simp: init_configs_def dict_getitem_def alloc_def)
  have 3: "init_configs self act s1 = Inl (KeyError ''post_fcnet_activation'')"
    if "model_config_dict self ''vf_share_layers'' \<noteq> None" "act \<noteq> Box []"
       "model_config_dict self ''post_fcnet_hiddens'' \<noteq> None"
       "model_config_dict self ''post_fcnet_activation'' = None"
    using that pi by (auto simp: init_configs_def dict_getitem_def alloc_def)
  show ?thesis
    unfolding init using 1 2 3 by simp
qed

theorem missing_key_error_witness:
  "PPOCatalog_init (Catalog_init_with scenario_encoder) (Box [4]) (Discrete 3)
     Map.empty [] = Inl (KeyError ''vf_share_layers'') \<and>
   PPOCatalog_init (Catalog_init_with scenario_encoder) (Box [4]) (Discrete 3)
     [''vf_share_layers'' \<mapsto> PBool True] [] = Inl (KeyError ''post_fcnet_hiddens'') \<and>
   PPOCatalog_init (Catalog_init_with scenario_encoder) (Box [4]) (Discrete 3)
     [''vf_share_layers'' \<mapsto> PBool True, ''post_fcnet_hiddens'' \<mapsto> PList [PInt 32]] [] =
     Inl (KeyError ''post_fcnet_activation'')"
  using
    missing_key_error [where C = "Catalog_init_with scenario_encoder" and obs = "Box [4]"
      and act = "Discrete 3" and mcd = Map.empty and ?s0.0 = "[]" and d = 4,
      OF Catalog_init_with_eq]
    missing_key_error [where C = "Catalog_init_with scenario_encoder" and obs = "Box [4]"
      and act = "Discrete 3" and mcd = "[''vf_share_layers'' \<mapsto> PBool True]"
      and ?s0.0 = "[]" and d = 4, OF Catalog_init_with_eq]
    missing_key_error [where C = "Catalog_init_with scenario_encoder" and obs = "Box [4]"
      and act = "Discrete 3"
      and mcd = "[''vf_share_layers'' \<mapsto> PBool True, ''post_fcnet_hiddens'' \<mapsto> PList [PInt 32]]"
      and ?s0.0 = "[]" and d = 4, OF Catalog_init_with_eq]
  by simp

end
